theory Spec2Isabelle
  imports Complex_Main "HOL-Library.Multiset"
begin

section \<open>Savings agent of the transaction viewer (backend/savingsAgent.js)\<close>

text \<open>
  The theory embeds the three parts of \<^verbatim>\<open>backend/savingsAgent.js\<close>: the windfall
  detector, the weekly sweep detector and the soft lock on vault withdrawals, together
  with the two tables of \<^verbatim>\<open>database.js\<close> the soft lock reads and writes and the
  route of \<^verbatim>\<open>server.js\<close> that creates withdrawal requests.

  Conventions of the embedding.
  \<^item> A JavaScript number is an exact rational (\<^typ>\<open>rat\<close>): sums, products and
    comparisons are those of the source, without the rounding of IEEE doubles.
  \<^item> An instant (the value of \<^verbatim>\<open>new Date(...)\<close>, \<^verbatim>\<open>Date.now()\<close>) is an
    \<^typ>\<open>int\<close>, the milliseconds since the epoch. The clock read by
    \<^verbatim>\<open>new Date()\<close> is the parameter \<open>now\<close> of every operation.
  \<^item> A value that may be \<^verbatim>\<open>undefined\<close>, \<^verbatim>\<open>null\<close> or \<^verbatim>\<open>NaN\<close> is an
    \<^typ>\<open>'a option\<close>.
\<close>

subsection \<open>JavaScript primitives used by the source\<close>

text \<open>Decimal digits of a natural number, as \<^verbatim>\<open>String(n)\<close> prints them.\<close>

fun show_nat :: "nat \<Rightarrow> string" where
  "show_nat n =
     (if n < 10 then [''0123456789'' ! n]
      else show_nat (n div 10) @ [''0123456789'' ! (n mod 10)])"

declare show_nat.simps [simp del]

text \<open>An integer inside a template literal.\<close>

definition show_int :: "int \<Rightarrow> string" where
  "show_int i = (if i < 0 then ''-'' @ show_nat (nat (- i)) else show_nat (nat i))"

text \<open>
  \<^verbatim>\<open>Number.prototype.toFixed(f)\<close>: the sign is split off, \<open>n\<close> is the integer
  nearest to \<open>x * 10^f\<close> (the larger one of two), and its digits are padded with
  zeros to at least \<open>f + 1\<close> places before the point is inserted. (From \<open>10^21\<close> on
  JavaScript prints the number in exponent notation instead; the embedding keeps the
  positional digits there.)
\<close>

definition toFixed :: "nat \<Rightarrow> rat \<Rightarrow> string" where
  "toFixed f x =
     (let s = (if x < 0 then ''-'' else '''');
          n = nat \<lfloor>\<bar>x\<bar> * 10 ^ f + 1 / 2\<rfloor>;
          m = show_nat n;
          m = replicate (f + 1 - length m) (CHR ''0'') @ m;
          k = length m
      in if f = 0 then s @ m
         else s @ take (k - f) m @ ''.'' @ drop (k - f) m)"

text \<open>
  A string property inside a template literal: \<^verbatim>\<open>undefined\<close> prints as the nine
  letters of its name.
\<close>

definition template :: "string option \<Rightarrow> string" where
  "template v = (case v of None \<Rightarrow> ''undefined'' | Some s \<Rightarrow> s)"

text \<open>
  \<^verbatim>\<open>a || b\<close> on string properties: \<^verbatim>\<open>undefined\<close>, \<^verbatim>\<open>null\<close> and the empty
  string are falsy.
\<close>

definition truthy :: "string option \<Rightarrow> bool" where
  "truthy v = (case v of None \<Rightarrow> False | Some s \<Rightarrow> s \<noteq> [])"

subsection \<open>Transactions\<close>

text \<open>
  A transaction as the detectors read it. \<open>amount\<close> is \<open>Some a\<close> for a number and
  \<open>None\<close> for a value without a numeric reading (\<^verbatim>\<open>undefined\<close>, \<^verbatim>\<open>NaN\<close>, a
  string that is not a numeral, an object): both \<^verbatim>\<open>t.amount < 0\<close> and
  \<^verbatim>\<open>t.amount > 0\<close> are false for it. Values of another type that JavaScript coerces
  to a number (booleans, numeral strings) are outside the embedding.
  \<open>date\<close> is the instant \<^verbatim>\<open>new Date(t.date)\<close> denotes, \<open>None\<close> for an Invalid
  Date, which compares false with every instant.
\<close>

record transaction =
  amount :: "rat option"
  date :: "int option"
  name :: "string option"
  merchant_name :: "string option"

text \<open>\<^verbatim>\<open>txnDate >= cutoff\<close> and \<^verbatim>\<open>txnDate < cutoff\<close> on a possibly invalid date.\<close>

definition date_ge :: "int option \<Rightarrow> int \<Rightarrow> bool" where
  "date_ge d cutoff = (case d of None \<Rightarrow> False | Some i \<Rightarrow> cutoff \<le> i)"

definition date_lt :: "int option \<Rightarrow> int \<Rightarrow> bool" where
  "date_lt d cutoff = (case d of None \<Rightarrow> False | Some i \<Rightarrow> i < cutoff)"

subsection \<open>Windfall wallet: detectWindfall\<close>

text \<open>
  \<^verbatim>\<open>transactions.filter(t => t.amount < 0).map(t => Math.abs(t.amount))\<close>: one entry
  per credit, in input order.
\<close>

definition income :: "transaction \<Rightarrow> rat option" where
  "income t = (case amount t of None \<Rightarrow> None | Some a \<Rightarrow> if a < 0 then Some \<bar>a\<bar> else None)"

definition incomeTransactions :: "transaction list \<Rightarrow> rat list" where
  "incomeTransactions transactions = List.map_filter income transactions"

text \<open>
  \<^verbatim>\<open>incomeTransactions.sort((a, b) => a - b)\<close> followed by
  \<^verbatim>\<open>incomeTransactions[Math.floor(incomeTransactions.length / 2)]\<close>. The source calls
  it with at least two incomes, so the index is in range.
\<close>

definition median :: "rat list \<Rightarrow> rat" where
  "median incomes = sort incomes ! (length incomes div 2)"

text \<open>The objects of \<^verbatim>\<open>recentLargeDeposits\<close>: amount, date, name, merchant.\<close>

record deposit =
  dep_amount :: rat
  dep_date :: "int option"
  dep_name :: "string option"
  dep_merchant :: "string option"

text \<open>
  The filter and the map of \<^verbatim>\<open>recentLargeDeposits\<close> on one transaction: a credit
  whose absolute amount exceeds \<open>median * 1.5\<close> and whose date is not before
  \<open>thirtyDaysAgo\<close>.
\<close>

definition largeDeposit :: "int \<Rightarrow> rat \<Rightarrow> transaction \<Rightarrow> deposit option" where
  "largeDeposit thirtyDaysAgo med t =
     (case amount t of
        None \<Rightarrow> None
      | Some a \<Rightarrow>
          if a < 0 \<and> \<bar>a\<bar> > med * (3 / 2) \<and> date_ge (date t) thirtyDaysAgo
          then Some \<lparr>dep_amount = \<bar>a\<bar>, dep_date = date t, dep_name = name t,
                      dep_merchant = merchant_name t\<rparr>
          else None)"

definition recentLargeDeposits :: "int \<Rightarrow> rat \<Rightarrow> transaction list \<Rightarrow> deposit list" where
  "recentLargeDeposits thirtyDaysAgo med transactions =
     List.map_filter (largeDeposit thirtyDaysAgo med) transactions"

text \<open>The result object of a detected windfall.\<close>

record windfall =
  wf_amount :: rat
  medianIncome :: rat
  multiplier :: string
  source :: string
  wf_date :: "int option"
  wf_suggestedSavings :: rat
  wf_reason :: string

text \<open>
  The three shapes \<^verbatim>\<open>detectWindfall\<close> returns: \<^verbatim>\<open>{isWindfall: false, reason}\<close>,
  the windfall object, and \<^verbatim>\<open>{isWindfall: false, error}\<close> of the catch block.
\<close>

datatype windfall_result =
    NoWindfall string
  | Windfall windfall
  | WindfallError string

definition isWindfall :: "windfall_result \<Rightarrow> bool" where
  "isWindfall r = (case r of Windfall w \<Rightarrow> True | _ \<Rightarrow> False)"

text \<open>
  \<^verbatim>\<open>windfall.name || windfall.merchant || 'Unknown'\<close>.
\<close>

definition sourceLabel :: "deposit \<Rightarrow> string" where
  "sourceLabel d =
     (if truthy (dep_name d) then template (dep_name d)
      else if truthy (dep_merchant d) then template (dep_merchant d)
      else ''Unknown'')"

text \<open>
  The deposit object has no property \<^verbatim>\<open>source\<close> (that key belongs to the result
  being built), so \<^verbatim>\<open>windfall.source\<close> in the template of \<^verbatim>\<open>reason\<close> reads
  \<^verbatim>\<open>undefined\<close>.
\<close>

definition dep_source :: "deposit \<Rightarrow> string option" where
  "dep_source d = None"

definition windfallOf :: "rat \<Rightarrow> deposit \<Rightarrow> windfall" where
  "windfallOf med d =
     \<lparr>wf_amount = dep_amount d,
      medianIncome = med,
      multiplier = toFixed 1 (dep_amount d / med),
      source = sourceLabel d,
      wf_date = dep_date d,
      wf_suggestedSavings = dep_amount d * (2 / 10),
      wf_reason = ''Detected '' @ template (dep_source d) @ '': $'' @ toFixed 2 (dep_amount d)
                  @ '' ('' @ toFixed 1 (dep_amount d / med) @ ''x your typical income)''\<rparr>"

text \<open>
  \<^verbatim>\<open>detectWindfall(transactions)\<close>. No statement of the try block throws on a list
  of transaction objects, so the catch branch is never taken.
\<close>

definition detectWindfall :: "int \<Rightarrow> transaction list \<Rightarrow> windfall_result" where
  "detectWindfall now transactions =
     (let incomes = incomeTransactions transactions in
      if length incomes < 2 then NoWindfall ''Not enough transaction history''
      else
        let med = median incomes;
            thirtyDaysAgo = now - 30 * 24 * 60 * 60 * 1000
        in case recentLargeDeposits thirtyDaysAgo med transactions of
             d # _ \<Rightarrow> Windfall (windfallOf med d)
           | [] \<Rightarrow> NoWindfall ''No recent large deposits detected'')"

subsection \<open>Smart sweep: analyzeWeeklySweep\<close>

text \<open>
  One transaction under a filter \<^verbatim>\<open>t.amount > 0 && (date test)\<close>: the amount
  that the following \<^verbatim>\<open>reduce\<close> adds, if the transaction is kept.
\<close>

definition spending :: "(int option \<Rightarrow> bool) \<Rightarrow> transaction \<Rightarrow> rat option" where
  "spending inWindow t =
     (case amount t of
        None \<Rightarrow> None
      | Some a \<Rightarrow> if a > 0 \<and> inWindow (date t) then Some a else None)"

definition oneWeekAgo :: "int \<Rightarrow> int" where
  "oneWeekAgo now = now - 7 * 24 * 60 * 60 * 1000"

definition fiveWeeksAgo :: "int \<Rightarrow> int" where
  "fiveWeeksAgo now = now - 35 * 24 * 60 * 60 * 1000"

text \<open>\<^verbatim>\<open>.reduce((sum, t) => sum + t.amount, 0)\<close>\<close>

definition reduce_sum :: "rat list \<Rightarrow> rat" where
  "reduce_sum amounts = foldl (\<lambda>sum a. sum + a) 0 amounts"

definition thisWeekSpending :: "int \<Rightarrow> transaction list \<Rightarrow> rat" where
  "thisWeekSpending now transactions =
     reduce_sum (List.map_filter (spending (\<lambda>d. date_ge d (oneWeekAgo now))) transactions)"

text \<open>The amounts of the transactions of \<^verbatim>\<open>last4WeeksTransactions\<close>, in input order.\<close>

definition last4WeeksTransactions :: "int \<Rightarrow> transaction list \<Rightarrow> rat list" where
  "last4WeeksTransactions now transactions =
     List.map_filter
       (spending (\<lambda>d. date_ge d (fiveWeeksAgo now) \<and> date_lt d (oneWeekAgo now)))
       transactions"

definition avgWeeklySpending :: "int \<Rightarrow> transaction list \<Rightarrow> rat" where
  "avgWeeklySpending now transactions =
     reduce_sum (last4WeeksTransactions now transactions) / 4"

definition unspentAmount :: "int \<Rightarrow> transaction list \<Rightarrow> rat" where
  "unspentAmount now transactions =
     avgWeeklySpending now transactions - thisWeekSpending now transactions"

record sweep =
  sw_thisWeekSpending :: rat
  sw_avgWeeklySpending :: rat
  sw_unspentAmount :: rat
  sw_suggestedSavings :: rat
  sw_reason :: string

datatype sweep_result =
    NoSweep string
  | Sweep sweep
  | SweepError string

definition hasSweepOpportunity :: "sweep_result \<Rightarrow> bool" where
  "hasSweepOpportunity r = (case r of Sweep s \<Rightarrow> True | _ \<Rightarrow> False)"

text \<open>
  \<^verbatim>\<open>analyzeWeeklySweep(transactions)\<close>. As in \<open>detectWindfall\<close>, nothing in the try
  block throws on a list of transaction objects.
\<close>

definition analyzeWeeklySweep :: "int \<Rightarrow> transaction list \<Rightarrow> sweep_result" where
  "analyzeWeeklySweep now transactions =
     (if length (last4WeeksTransactions now transactions) = 0
      then NoSweep ''Not enough historical data''
      else if unspentAmount now transactions > 5
      then Sweep
        \<lparr>sw_thisWeekSpending = thisWeekSpending now transactions,
         sw_avgWeeklySpending = avgWeeklySpending now transactions,
         sw_unspentAmount = unspentAmount now transactions,
         sw_suggestedSavings = unspentAmount now transactions * (5 / 10),
         sw_reason = ''You spent $'' @ toFixed 2 (unspentAmount now transactions)
                     @ '' less than usual this week!''\<rparr>
      else NoSweep
        (if thisWeekSpending now transactions > avgWeeklySpending now transactions
         then ''You spent more than usual this week''
         else ''Unspent amount is too small to sweep''))"

subsection \<open>The tables of the soft lock (database.js)\<close>

text \<open>
  The columns of \<^verbatim>\<open>increase_accounts\<close> and \<^verbatim>\<open>withdrawal_requests\<close> that the soft
  lock reads or writes. \<open>created_at\<close> and \<open>completed_at\<close> hold the instant that
  \<^verbatim>\<open>new Date(row.created_at)\<close> denotes. A table is the list of its rows in insertion
  order.
\<close>

record account =
  increase_account_id :: string
  account_type :: string
  acct_name :: string
  balance :: rat
  purpose :: "string option"
  goal_amount :: "rat option"

record withdrawal_request =
  wr_id :: nat
  vault_id :: string
  wr_amount :: rat
  wr_reason :: string
  status :: string
  impact_message :: string
  created_at :: int
  completed_at :: "int option"

record database =
  increase_accounts :: "account list"
  withdrawal_requests :: "withdrawal_request list"

text \<open>
  The constraint \<^verbatim>\<open>increase_account_id TEXT UNIQUE NOT NULL\<close> of the accounts
  table.
\<close>

definition uniqueAccountIds :: "database \<Rightarrow> bool" where
  "uniqueAccountIds db = distinct (map increase_account_id (increase_accounts db))"

text \<open>
  \<^verbatim>\<open>SELECT * FROM increase_accounts WHERE increase_account_id = ? AND account_type = 'vault'\<close>
  through \<^verbatim>\<open>dbGet\<close>, which yields the first row or \<^verbatim>\<open>undefined\<close>.
\<close>

definition selectVault :: "database \<Rightarrow> string \<Rightarrow> account option" where
  "selectVault db vaultId =
     find (\<lambda>a. increase_account_id a = vaultId \<and> account_type a = ''vault'')
       (increase_accounts db)"

text \<open>\<^verbatim>\<open>SELECT * FROM increase_accounts WHERE increase_account_id = ?\<close>\<close>

definition selectAccount :: "database \<Rightarrow> string \<Rightarrow> account option" where
  "selectAccount db vaultId =
     find (\<lambda>a. increase_account_id a = vaultId) (increase_accounts db)"

text \<open>
  \<^verbatim>\<open>SELECT * FROM withdrawal_requests WHERE vault_id = ? AND status = 'pending'\<close>
\<close>

definition pendingRequests :: "database \<Rightarrow> string \<Rightarrow> withdrawal_request list" where
  "pendingRequests db vaultId =
     filter (\<lambda>r. vault_id r = vaultId \<and> status r = ''pending'') (withdrawal_requests db)"

text \<open>
  \<^verbatim>\<open>ORDER BY created_at DESC LIMIT 1\<close>: a row with the greatest \<open>created_at\<close>; of
  several such rows the embedding takes the one inserted first.
\<close>

fun mostRecent :: "withdrawal_request list \<Rightarrow> withdrawal_request option" where
  "mostRecent [] = None"
| "mostRecent (r # rs) =
     (case mostRecent rs of
        None \<Rightarrow> Some r
      | Some r' \<Rightarrow> if created_at r < created_at r' then Some r' else Some r)"

text \<open>
  \<^verbatim>\<open>INSERT INTO withdrawal_requests (vault_id, amount, reason, status, impact_message)\<close>:
  the id is the next of the AUTOINCREMENT key, \<open>created_at\<close> defaults to
  \<^verbatim>\<open>CURRENT_TIMESTAMP\<close>, which has whole seconds, and \<open>completed_at\<close> is NULL.
\<close>

definition nextId :: "withdrawal_request list \<Rightarrow> nat" where
  "nextId rows = Suc (foldr max (map wr_id rows) 0)"

definition insertRequest ::
  "database \<Rightarrow> int \<Rightarrow> string \<Rightarrow> rat \<Rightarrow> string \<Rightarrow> string \<Rightarrow> string \<Rightarrow> database" where
  "insertRequest db now vaultId amt reason st impact =
     db\<lparr>withdrawal_requests := withdrawal_requests db @
          [\<lparr>wr_id = nextId (withdrawal_requests db), vault_id = vaultId, wr_amount = amt,
            wr_reason = reason, status = st, impact_message = impact,
            created_at = now - now mod 1000, completed_at = None\<rparr>]\<rparr>"

text \<open>
  \<^verbatim>\<open>UPDATE withdrawal_requests SET status = 'completed', completed_at = CURRENT_TIMESTAMP WHERE id = ?\<close>
  (the execute route of server.js, after a successful transfer).
\<close>

definition completeRequest :: "database \<Rightarrow> int \<Rightarrow> nat \<Rightarrow> database" where
  "completeRequest db now withdrawalRequestId =
     db\<lparr>withdrawal_requests :=
          map (\<lambda>r. if wr_id r = withdrawalRequestId
                    then r\<lparr>status := ''completed'', completed_at := Some (now - now mod 1000)\<rparr>
                    else r)
            (withdrawal_requests db)\<rparr>"

subsection \<open>Soft lock: checkSoftLock\<close>

record vault_snapshot =
  vs_name :: string
  vs_balance :: rat
  vs_goalAmount :: "rat option"
  vs_purpose :: "string option"

text \<open>
  The four shapes \<^verbatim>\<open>checkSoftLock\<close> returns:
  \<^verbatim>\<open>{allowed: false, error}\<close>,
  \<^verbatim>\<open>{allowed: true, message, withdrawalRequestId}\<close>,
  \<^verbatim>\<open>{allowed: false, reason: 'cooling_period', hoursRemaining, message}\<close> and
  \<^verbatim>\<open>{allowed: false, reason: 'new_request', requiresCooling: true, vault}\<close>.
\<close>

datatype lock_check =
    LockError string
  | Unlocked string nat
  | CoolingPeriod int string
  | NewRequest vault_snapshot

fun allowed :: "lock_check \<Rightarrow> bool" where
  "allowed (Unlocked m i) = True"
| "allowed _ = False"

fun reason :: "lock_check \<Rightarrow> string option" where
  "reason (CoolingPeriod h m) = Some ''cooling_period''"
| "reason (NewRequest v) = Some ''new_request''"
| "reason _ = None"


fun withdrawalRequestId :: "lock_check \<Rightarrow> nat option" where
  "withdrawalRequestId (Unlocked m i) = Some i"
| "withdrawalRequestId _ = None"

text \<open>\<^verbatim>\<open>(now - requestTime) / (1000 * 60 * 60)\<close>\<close>

definition hoursSinceRequest :: "int \<Rightarrow> withdrawal_request \<Rightarrow> rat" where
  "hoursSinceRequest now r = of_int (now - created_at r) / (1000 * 60 * 60)"

text \<open>
  \<^verbatim>\<open>checkSoftLock(vaultId, requestedAmount)\<close>, with the database threaded through:
  the function issues two SELECTs and no write. Its second argument is not used by the
  source either.
\<close>

definition checkSoftLock ::
  "database \<Rightarrow> int \<Rightarrow> string \<Rightarrow> rat \<Rightarrow> lock_check \<times> database" where
  "checkSoftLock db now vaultId requestedAmount =
     (case selectVault db vaultId of
        None \<Rightarrow> (LockError ''Vault not found'', db)
      | Some vault \<Rightarrow>
          (case mostRecent (pendingRequests db vaultId) of
             Some existingRequest \<Rightarrow>
               if hoursSinceRequest now existingRequest \<ge> 24
               then (Unlocked ''Withdrawal unlocked after 24-hour cooling period''
                       (wr_id existingRequest), db)
               else
                 let remaining = \<lceil>24 - hoursSinceRequest now existingRequest\<rceil>
                 in (CoolingPeriod remaining
                       (''Withdrawal will be available in '' @ show_int remaining @ '' hours''),
                     db)
           | None \<Rightarrow>
               (NewRequest \<lparr>vs_name = acct_name vault, vs_balance = balance vault,
                            vs_goalAmount = goal_amount vault, vs_purpose = purpose vault\<rparr>,
                db)))"

subsection \<open>Soft lock: createWithdrawalRequest\<close>

text \<open>
  The goal-impact text. \<^verbatim>\<open>if (goalAmount)\<close> is false for NULL and for 0. The line
  breaks of the template are the character 10.
\<close>

definition impactMessage :: "account \<Rightarrow> rat \<Rightarrow> string" where
  "impactMessage vault amt =
     (case goal_amount vault of
        None \<Rightarrow> []
      | Some goalAmount \<Rightarrow>
          if goalAmount = 0 then []
          else
            let currentBalance = balance vault;
                newBalance = currentBalance - amt;
                currentProgress = (currentBalance / goalAmount) * 100;
                newProgress = (newBalance / goalAmount) * 100;
                progressLoss = currentProgress - newProgress;
                weeksDelay = \<lceil>progressLoss / 5\<rceil>
            in ''Withdrawing now means:'' @ [CHR 0x0A]
               @ ''- Your progress drops from '' @ toFixed 1 currentProgress @ ''% to ''
               @ toFixed 1 newProgress @ ''%'' @ [CHR 0x0A]
               @ ''- You'' @ [CHR 0x27] @ ''ll reach your goal approximately ''
               @ show_int weeksDelay @ '' weeks later'')"

text \<open>
  The two shapes \<^verbatim>\<open>createWithdrawalRequest\<close> returns:
  \<^verbatim>\<open>{success: false, error}\<close> and
  \<^verbatim>\<open>{success: true, message, impact, availableAt}\<close>, where \<open>availableAt\<close> is kept as
  the instant that the source prints in ISO format.
\<close>

datatype create_result =
    CreateError string
  | Created string string int

fun success :: "create_result \<Rightarrow> bool" where
  "success (Created m i a) = True"
| "success (CreateError e) = False"

text \<open>
  \<^verbatim>\<open>createWithdrawalRequest(vaultId, amount, reason = '')\<close>. The account is looked up
  by its id alone, and the row is inserted without a look at the rows already stored.
\<close>

definition createWithdrawalRequest ::
  "database \<Rightarrow> int \<Rightarrow> string \<Rightarrow> rat \<Rightarrow> string \<Rightarrow> create_result \<times> database" where
  "createWithdrawalRequest db now vaultId amt why =
     (case selectAccount db vaultId of
        None \<Rightarrow> (CreateError ''Vault not found'', db)
      | Some vault \<Rightarrow>
          let impact = impactMessage vault amt
          in (Created ''24-hour cooling period started'' impact (now + 24 * 60 * 60 * 1000),
              insertRequest db now vaultId amt why ''pending'' impact))"

subsection \<open>The routes of server.js that write withdrawal requests\<close>

text \<open>
  \<^verbatim>\<open>POST /api/vault/withdraw/request\<close>. The body carries \<open>vaultId\<close> (falsy when
  empty), \<open>amount\<close> (falsy when 0) and an optional \<open>reason\<close>. The replies are the
  status 400 for missing fields, the lock check itself (status 200 when it allows the
  withdrawal or reports the cooling period, status 400 for its error), and the result
  of \<open>createWithdrawalRequest\<close>. Both calls read the clock as \<open>now\<close>.
\<close>

datatype request_reply =
    MissingFields
  | LockReply lock_check
  | CreateReply create_result
  | LockFailure lock_check

definition withdrawRequestRoute ::
  "database \<Rightarrow> int \<Rightarrow> string \<Rightarrow> rat \<Rightarrow> string option \<Rightarrow> request_reply \<times> database" where
  "withdrawRequestRoute db now vaultId amt why =
     (if vaultId = [] \<or> amt = 0 then (MissingFields, db)
      else
        case checkSoftLock db now vaultId amt of
          (lockCheck, db1) \<Rightarrow>
            if allowed lockCheck then (LockReply lockCheck, db1)
            else if reason lockCheck = Some ''cooling_period'' then (LockReply lockCheck, db1)
            else if reason lockCheck = Some ''new_request'' then
              (case createWithdrawalRequest db1 now vaultId amt
                      (case why of None \<Rightarrow> [] | Some w \<Rightarrow> w) of
                 (result, db2) \<Rightarrow> (CreateReply result, db2))
            else (LockFailure lockCheck, db1))"

text \<open>
  The writes that reach \<^verbatim>\<open>withdrawal_requests\<close>: a call of the request route, and the
  UPDATE of the execute route, which runs after a successful transfer with the request
  id of the body.
\<close>

datatype store_write =
    RequestWithdrawal int string rat "string option"
  | MarkCompleted int nat

fun applyWrite :: "database \<Rightarrow> store_write \<Rightarrow> database" where
  "applyWrite db (RequestWithdrawal now vaultId amt why) =
     snd (withdrawRequestRoute db now vaultId amt why)"
| "applyWrite db (MarkCompleted now requestId) = completeRequest db now requestId"

definition applyWrites :: "database \<Rightarrow> store_write list \<Rightarrow> database" where
  "applyWrites db ws = foldl applyWrite db ws"

text \<open>
  At most one pending request per vault: the vault ids of the pending rows are pairwise
  different.
\<close>

definition singlePending :: "database \<Rightarrow> bool" where
  "singlePending db =
     distinct (map vault_id (filter (\<lambda>r. status r = ''pending'') (withdrawal_requests db)))"

section \<open>The wording of the specification\<close>

text \<open>
  The definitions of this section follow the sentences of the specification, not the
  source; the theorems below compare them with the embedding of the source.
\<close>

text \<open>
  A windfall candidate: a credit, dated within the most recent 30 days relative to
  \<open>now\<close> (not earlier than 30 times 24 hours before it), whose absolute amount
  strictly exceeds 1.5 times the median income \<open>M\<close>.
\<close>

definition recentLargeCredit :: "int \<Rightarrow> rat \<Rightarrow> transaction \<Rightarrow> bool" where
  "recentLargeCredit now M t =
     (case (amount t, date t) of
        (Some a, Some d) \<Rightarrow> a < 0 \<and> now - 30 * 86400000 \<le> d \<and> 3 / 2 * M < \<bar>a\<bar>
      | _ \<Rightarrow> False)"

text \<open>
  A debit of this week (dated in the trailing 7 days), and a debit of the baseline
  window (dated at least 7 and at most 35 days before \<open>now\<close>).
\<close>

definition currentWeekDebit :: "int \<Rightarrow> transaction \<Rightarrow> bool" where
  "currentWeekDebit now t =
     (case (amount t, date t) of
        (Some a, Some d) \<Rightarrow> 0 < a \<and> now - 7 * 86400000 \<le> d
      | _ \<Rightarrow> False)"

definition baselineDebit :: "int \<Rightarrow> transaction \<Rightarrow> bool" where
  "baselineDebit now t =
     (case (amount t, date t) of
        (Some a, Some d) \<Rightarrow> 0 < a \<and> now - 35 * 86400000 \<le> d \<and> d < now - 7 * 86400000
      | _ \<Rightarrow> False)"

text \<open>The sum of the amounts of the transactions that satisfy \<open>P\<close>.\<close>

definition debitTotal :: "(transaction \<Rightarrow> bool) \<Rightarrow> transaction list \<Rightarrow> rat" where
  "debitTotal P transactions =
     sum_list (map (\<lambda>t. case amount t of Some a \<Rightarrow> a | None \<Rightarrow> 0) (filter P transactions))"

text \<open>A record with a numeric amount, and one with a parsable date as well.\<close>

definition numericAmount :: "transaction \<Rightarrow> bool" where
  "numericAmount t = (amount t \<noteq> None)"

definition wellFormed :: "transaction \<Rightarrow> bool" where
  "wellFormed t = (amount t \<noteq> None \<and> date t \<noteq> None)"

section \<open>Example data\<close>

text \<open>A credit and a debit of a given size, dated at a given instant.\<close>

definition credit :: "rat \<Rightarrow> int \<Rightarrow> string \<Rightarrow> transaction" where
  "credit a d n = \<lparr>amount = Some (- a), date = Some d, name = Some n, merchant_name = None\<rparr>"

definition debit :: "rat \<Rightarrow> int \<Rightarrow> string \<Rightarrow> transaction" where
  "debit a d n = \<lparr>amount = Some a, date = Some d, name = Some n, merchant_name = None\<rparr>"

text \<open>A credit whose date does not parse.\<close>

definition undatedCredit :: "rat \<Rightarrow> string \<Rightarrow> transaction" where
  "undatedCredit a n = \<lparr>amount = Some (- a), date = None, name = Some n, merchant_name = None\<rparr>"

text \<open>The clock of the examples, and the instant a number of days before it.\<close>

definition today :: int where
  "today = 3000000000"

definition daysAgo :: "int \<Rightarrow> int" where
  "daysAgo n = today - n * 86400000"


text \<open>The incomes 100, 200, 300, 400 of the specification, out of order.\<close>

definition fourIncomes :: "transaction list" where
  "fourIncomes =
     [credit 300 today ''C'', credit 100 today ''A'', credit 400 today ''D'',
      credit 200 today ''B'']"

text \<open>Two pay cheques of 500 and a bonus of 2000.\<close>

definition payAndBonus :: "transaction list" where
  "payAndBonus =
     [credit 500 (daysAgo 20) ''Paycheck'', credit 500 (daysAgo 6) ''Paycheck'',
      credit 2000 (daysAgo 2) ''Bonus'']"

text \<open>Two dated credits and a third one whose date does not parse.\<close>

definition creditsWithUndated :: "transaction list" where
  "creditsWithUndated = [credit 100 today ''Pay'', credit 160 today ''Pay'', undatedCredit 10 ''Fee'']"

text \<open>A baseline of 420 over the four weeks, and a spend of this week.\<close>

definition baselineAndWeek :: "rat \<Rightarrow> transaction list" where
  "baselineAndWeek a =
     [debit 200 (daysAgo 30) ''Rent'', debit a (daysAgo 1) ''Food'',
      debit 220 (daysAgo 10) ''Car'']"

text \<open>A ledger with a main account and one vault, and no withdrawal request yet.\<close>

definition mainAccount :: account where
  "mainAccount =
     \<lparr>increase_account_id = ''acct_main'', account_type = ''main'', acct_name = ''Main'',
      balance = 2500, purpose = None, goal_amount = None\<rparr>"

definition tripVault :: account where
  "tripVault =
     \<lparr>increase_account_id = ''acct_trip'', account_type = ''vault'', acct_name = ''Trip'',
      balance = 500, purpose = Some ''Holiday'', goal_amount = Some 1000\<rparr>"

definition ledger :: database where
  "ledger = \<lparr>increase_accounts = [mainAccount, tripVault], withdrawal_requests = []\<rparr>"

text \<open>The ledger after one request of 120 on the vault, created at the instant \<open>today\<close>.\<close>

definition ledgerWithRequest :: database where
  "ledgerWithRequest = snd (createWithdrawalRequest ledger today ''acct_trip'' 120 ''rent'')"

section \<open>Evaluation of the printing functions\<close>

lemma show_nat_digit: "n < 10 \<Longrightarrow> show_nat n = [''0123456789'' ! n]"
  by (subst show_nat.simps) simp

lemma show_nat_more:
  "\<not> n < 10 \<Longrightarrow> show_nat n = show_nat (n div 10) @ [''0123456789'' ! (n mod 10)]"
  by (subst show_nat.simps) simp

lemma floor_rat_numeral: "\<lfloor>numeral a / numeral b :: rat\<rfloor> = numeral a div numeral b"
  by (metis floor_divide_of_int_eq of_int_numeral)

lemma ceiling_rat_numeral: "\<lceil>numeral a / numeral b :: rat\<rceil> = - (- numeral a div numeral b)"
  unfolding ceiling_def
  by (metis divide_minus_left floor_divide_of_int_eq of_int_neg_numeral of_int_numeral)

lemma floor_rat_one_numeral: "\<lfloor>1 / numeral b :: rat\<rfloor> = 1 div numeral b"
  by (metis floor_divide_of_int_eq of_int_1 of_int_numeral)

lemma ceiling_rat_one_numeral: "\<lceil>1 / numeral b :: rat\<rceil> = - (- 1 div numeral b)"
  unfolding ceiling_def
  by (metis divide_minus_left floor_divide_of_int_eq of_int_1 of_int_minus of_int_numeral)

lemmas js_eval =
  show_nat_digit show_nat_more floor_rat_numeral ceiling_rat_numeral floor_rat_one_numeral
  ceiling_rat_one_numeral

lemmas windfall_eval =
  detectWindfall_def incomeTransactions_def income_def median_def recentLargeDeposits_def
  largeDeposit_def List.map_filter_def date_ge_def isWindfall_def recentLargeCredit_def
  credit_def undatedCredit_def today_def daysAgo_def

section \<open>The windfall detector\<close>







section \<open>The median\<close>

lemma median_of_sorted_permutation:
  assumes "sorted ys" and "mset ys = mset incomes"
  shows "median incomes = ys ! (length ys div 2)"
proof -
  from assms have "sort incomes = ys"
    by (simp add: properties_for_sort)
  moreover from assms(2) have "length ys = length incomes"
    by (metis size_mset)
  ultimately show ?thesis
    by (simp add: median_def)
qed

lemma detectWindfall_medianIncome:
  "detectWindfall now transactions = Windfall w \<Longrightarrow>
     medianIncome w = median (incomeTransactions transactions)"
  by (auto simp: detectWindfall_def Let_def windfallOf_def split: if_splits list.splits)

text \<open>
  C5. For an income list of even length \<open>n\<close> (at least 2, as \<open>detectWindfall\<close>
  requires), the median that \<open>detectWindfall\<close> computes and reports as
  \<open>medianIncome\<close> is the element at 0-based index \<open>n div 2\<close> of the ascending
  sorted list \<open>ys\<close> of the incomes. It is the upper one of the two middle elements,
  and it equals their average only when the two are equal.
\<close>

theorem median_even_is_element_at_half:
  assumes "even (length (incomeTransactions transactions))"
    and "2 \<le> length (incomeTransactions transactions)"
    and "sorted ys"
    and "mset ys = mset (incomeTransactions transactions)"
  shows "median (incomeTransactions transactions) = ys ! (length ys div 2)
       \<and> (\<forall>w. detectWindfall now transactions = Windfall w
              \<longrightarrow> medianIncome w = ys ! (length ys div 2))
       \<and> ys ! (length ys div 2 - 1) \<le> ys ! (length ys div 2)
       \<and> (median (incomeTransactions transactions)
            = (ys ! (length ys div 2 - 1) + ys ! (length ys div 2)) / 2
          \<longleftrightarrow> ys ! (length ys div 2 - 1) = ys ! (length ys div 2))"
proof -
  let ?n = "length ys"
  have m: "median (incomeTransactions transactions) = ys ! (?n div 2)"
    using assms(3,4) by (rule median_of_sorted_permutation)
  have len: "?n = length (incomeTransactions transactions)"
    using assms(4) by (metis size_mset)
  with assms(2) have "?n div 2 < ?n" by simp
  with assms(3) have le: "ys ! (?n div 2 - 1) \<le> ys ! (?n div 2)"
    by (simp add: sorted_nth_mono)
  have avg: "ys ! (?n div 2) = (ys ! (?n div 2 - 1) + ys ! (?n div 2)) / 2
             \<longleftrightarrow> ys ! (?n div 2 - 1) = ys ! (?n div 2)"
    by (auto simp: field_simps)
  have w: "\<forall>w. detectWindfall now transactions = Windfall w
              \<longrightarrow> medianIncome w = ys ! (?n div 2)"
    using m by (simp add: detectWindfall_medianIncome)
  from w le avg show ?thesis
    unfolding m by blast
qed

text \<open>
  The example of the specification: the incomes 100, 200, 300, 400 (here in another
  input order) have the median 300, not the average 250 of the two middle elements.
\<close>

theorem median_even_is_element_at_half_witness:
  "even (length (incomeTransactions fourIncomes))
   \<and> 2 \<le> length (incomeTransactions fourIncomes)
   \<and> sorted [100, 200, 300, 400 :: rat]
   \<and> mset [100, 200, 300, 400] = mset (incomeTransactions fourIncomes)
   \<and> median (incomeTransactions fourIncomes) = 300
   \<and> median (incomeTransactions fourIncomes) \<noteq> (200 + 300) / 2"
proof -
  have inc: "incomeTransactions fourIncomes = [300, 100, 400, 200]"
    by (simp add: fourIncomes_def incomeTransactions_def income_def credit_def
          List.map_filter_def)
  have h1: "even (length (incomeTransactions fourIncomes))"
    and h2: "2 \<le> length (incomeTransactions fourIncomes)"
    by (simp_all add: inc)
  have h3: "sorted [100, 200, 300, 400 :: rat]"
    by simp
  have h4: "mset [100, 200, 300, 400] = mset (incomeTransactions fourIncomes)"
    by (simp add: inc)
  from median_even_is_element_at_half [OF h1 h2 h3 h4, of today]
  have "median (incomeTransactions fourIncomes) = 300"
    by simp
  with h1 h2 h3 h4 show ?thesis
    by simp
qed

section \<open>The source label and the explanation of a windfall\<close>

text \<open>
  C6, evaluated on two pay cheques of 500 and a bonus of 2000: the source label of the
  result is the description of the selected transaction and the multiplier has one
  decimal place, but the explanation string names \<^verbatim>\<open>undefined\<close> instead of the
  source label.
\<close>

theorem detectWindfall_reason_names_undefined:
  "detectWindfall today payAndBonus =
     Windfall \<lparr>wf_amount = 2000, medianIncome = 500, multiplier = ''4.0'',
               source = ''Bonus'', wf_date = Some (daysAgo 2), wf_suggestedSavings = 400,
               wf_reason = ''Detected undefined: $2000.00 (4.0x your typical income)''\<rparr>"
  by (simp add: payAndBonus_def windfall_eval windfallOf_def sourceLabel_def truthy_def
        template_def dep_source_def toFixed_def js_eval Let_def)

section \<open>Records with unparsable dates or non-numeric amounts\<close>

lemma map_filter_filter:
  "(\<And>x. f x \<noteq> None \<Longrightarrow> P x) \<Longrightarrow> List.map_filter f (filter P xs) = List.map_filter f xs"
  by (induction xs) (auto split: option.splits)

lemma income_numeric: "income t \<noteq> None \<Longrightarrow> numericAmount t"
  by (auto simp: income_def numericAmount_def split: option.splits)

lemma largeDeposit_numeric: "largeDeposit c M t \<noteq> None \<Longrightarrow> numericAmount t"
  by (auto simp: largeDeposit_def numericAmount_def split: option.splits)

lemma largeDeposit_wellFormed: "largeDeposit c M t \<noteq> None \<Longrightarrow> wellFormed t"
  by (auto simp: largeDeposit_def wellFormed_def date_ge_def split: option.splits if_splits)

lemma spending_wellFormed_ge:
  "spending (\<lambda>d. date_ge d c) t \<noteq> None \<Longrightarrow> wellFormed t"
  by (auto simp: spending_def wellFormed_def date_ge_def split: option.splits if_splits)

lemma spending_wellFormed_window:
  "spending (\<lambda>d. date_ge d c \<and> date_lt d c') t \<noteq> None \<Longrightarrow> wellFormed t"
  by (auto simp: spending_def wellFormed_def date_ge_def split: option.splits if_splits)

lemma incomeTransactions_numeric:
  "incomeTransactions (filter numericAmount transactions) = incomeTransactions transactions"
  unfolding incomeTransactions_def by (rule map_filter_filter) (rule income_numeric)

lemma recentLargeDeposits_numeric:
  "recentLargeDeposits c M (filter numericAmount transactions)
     = recentLargeDeposits c M transactions"
  unfolding recentLargeDeposits_def by (rule map_filter_filter) (rule largeDeposit_numeric)

lemma recentLargeDeposits_wellFormed:
  "recentLargeDeposits c M (filter wellFormed transactions)
     = recentLargeDeposits c M transactions"
  unfolding recentLargeDeposits_def by (rule map_filter_filter) (rule largeDeposit_wellFormed)

lemma thisWeekSpending_wellFormed:
  "thisWeekSpending now (filter wellFormed transactions) = thisWeekSpending now transactions"
proof -
  have "List.map_filter (spending (\<lambda>d. date_ge d (oneWeekAgo now)))
          (filter wellFormed transactions)
        = List.map_filter (spending (\<lambda>d. date_ge d (oneWeekAgo now))) transactions"
    by (rule map_filter_filter) (rule spending_wellFormed_ge)
  then show ?thesis
    by (simp add: thisWeekSpending_def)
qed

lemma last4WeeksTransactions_wellFormed:
  "last4WeeksTransactions now (filter wellFormed transactions)
     = last4WeeksTransactions now transactions"
  unfolding last4WeeksTransactions_def
  by (rule map_filter_filter) (rule spending_wellFormed_window)

lemma detectWindfall_numeric:
  "detectWindfall now (filter numericAmount transactions) = detectWindfall now transactions"
  by (simp add: detectWindfall_def Let_def incomeTransactions_numeric
        recentLargeDeposits_numeric)

lemma analyzeWeeklySweep_wellFormed:
  "analyzeWeeklySweep now (filter wellFormed transactions) = analyzeWeeklySweep now transactions"
  by (simp add: analyzeWeeklySweep_def unspentAmount_def avgWeeklySpending_def
        thisWeekSpending_wellFormed last4WeeksTransactions_wellFormed)

text \<open>
  C7 as stated fails for \<open>detectWindfall\<close>: a credit whose date does not parse still
  enters the median. With the undated credit of 10 the median of the credits 100 and
  160 drops from 160 to 100 and the credit of 160 is reported as a windfall; without
  that record nothing is reported.
\<close>

theorem detectWindfall_counts_undated_credit:
  "detectWindfall today creditsWithUndated
     \<noteq> detectWindfall today (filter wellFormed creditsWithUndated)
   \<and> isWindfall (detectWindfall today creditsWithUndated)
   \<and> \<not> isWindfall (detectWindfall today (filter wellFormed creditsWithUndated))"
proof -
  have a: "isWindfall (detectWindfall today creditsWithUndated)"
    by (simp add: creditsWithUndated_def windfall_eval)
  have b: "\<not> isWindfall (detectWindfall today (filter wellFormed creditsWithUndated))"
    by (simp add: creditsWithUndated_def wellFormed_def windfall_eval)
  from a b show ?thesis by auto
qed

text \<open>
  C7 as amended. A record whose amount is not a number is excluded from every
  computation of both detectors. A record whose date does not parse is excluded from
  every computation of \<open>analyzeWeeklySweep\<close> and from the candidates of
  \<open>detectWindfall\<close>, for any median. Neither detector returns its error shape.
\<close>

theorem detectors_skip_malformed_records:
  "detectWindfall now (filter numericAmount transactions) = detectWindfall now transactions
   \<and> recentLargeDeposits c M (filter wellFormed transactions)
       = recentLargeDeposits c M transactions
   \<and> analyzeWeeklySweep now (filter wellFormed transactions)
       = analyzeWeeklySweep now transactions
   \<and> (\<forall>e. detectWindfall now transactions \<noteq> WindfallError e)
   \<and> (\<forall>e. analyzeWeeklySweep now transactions \<noteq> SweepError e)"
proof -
  have "\<forall>e. detectWindfall now transactions \<noteq> WindfallError e"
    by (auto simp: detectWindfall_def Let_def split: list.splits)
  moreover have "\<forall>e. analyzeWeeklySweep now transactions \<noteq> SweepError e"
    by (auto simp: analyzeWeeklySweep_def)
  ultimately show ?thesis
    by (simp add: detectWindfall_numeric recentLargeDeposits_wellFormed
          analyzeWeeklySweep_wellFormed)
qed

section \<open>The weekly sweep detector\<close>

lemma foldl_plus: "foldl (\<lambda>sum a. sum + a) (s :: rat) xs = s + sum_list xs"
  by (induction xs arbitrary: s) simp_all

lemma reduce_sum_sum_list: "reduce_sum xs = sum_list xs"
  by (simp add: reduce_sum_def foldl_plus)

lemma map_filter_spending:
  "(\<And>t. P t \<longleftrightarrow> spending W t \<noteq> None) \<Longrightarrow>
     List.map_filter (spending W) transactions =
       map (\<lambda>t. case amount t of Some a \<Rightarrow> a | None \<Rightarrow> 0) (filter P transactions)"
proof (induction transactions)
  case Nil
  show ?case by simp
next
  case (Cons t ts)
  then show ?case
    by (cases "spending W t") (auto simp: spending_def split: option.splits if_splits)
qed


lemma baselineDebit_spending:
  "baselineDebit now t \<longleftrightarrow>
     spending (\<lambda>d. date_ge d (fiveWeeksAgo now) \<and> date_lt d (oneWeekAgo now)) t \<noteq> None"
  by (auto simp: baselineDebit_def spending_def date_ge_def date_lt_def oneWeekAgo_def
        fiveWeeksAgo_def split: option.splits)


lemma last4WeeksTransactions_amounts:
  "last4WeeksTransactions now transactions =
     map (\<lambda>t. case amount t of Some a \<Rightarrow> a | None \<Rightarrow> 0)
       (filter (baselineDebit now) transactions)"
  unfolding last4WeeksTransactions_def
  by (subst map_filter_spending [where P = "baselineDebit now"])
     (simp_all add: baselineDebit_spending)

lemma avgWeeklySpending_total:
  "avgWeeklySpending now transactions = debitTotal (baselineDebit now) transactions / 4"
  by (simp add: avgWeeklySpending_def reduce_sum_sum_list last4WeeksTransactions_amounts
        debitTotal_def)


lemmas sweep_eval =
  analyzeWeeklySweep_def unspentAmount_def avgWeeklySpending_def thisWeekSpending_def
  last4WeeksTransactions_def reduce_sum_def spending_def List.map_filter_def date_ge_def
  date_lt_def oneWeekAgo_def fiveWeeksAgo_def hasSweepOpportunity_def debit_def credit_def
  today_def daysAgo_def baselineDebit_def currentWeekDebit_def debitTotal_def



text \<open>
  C9. When the baseline window holds no debit, \<open>analyzeWeeklySweep\<close> returns no
  opportunity with the reason of missing history, and nothing is divided. When it
  holds at least one, the average weekly spending is the debit total of the whole
  window divided by 4, whatever the dates inside the window, and that reason is not
  given.
\<close>

theorem analyzeWeeklySweep_baseline_guard:
  "(filter (baselineDebit now) transactions = [] \<longrightarrow>
      analyzeWeeklySweep now transactions = NoSweep ''Not enough historical data'')
   \<and> (filter (baselineDebit now) transactions \<noteq> [] \<longrightarrow>
        avgWeeklySpending now transactions
          = debitTotal (baselineDebit now) transactions / 4
        \<and> analyzeWeeklySweep now transactions \<noteq> NoSweep ''Not enough historical data''
        \<and> (\<forall>s. analyzeWeeklySweep now transactions = Sweep s \<longrightarrow>
               sw_avgWeeklySpending s = debitTotal (baselineDebit now) transactions / 4))"
proof -
  have len: "length (last4WeeksTransactions now transactions)
               = length (filter (baselineDebit now) transactions)"
    by (simp add: last4WeeksTransactions_amounts)
  have empty: "filter (baselineDebit now) transactions = [] \<Longrightarrow>
      analyzeWeeklySweep now transactions = NoSweep ''Not enough historical data''"
    using len by (simp add: analyzeWeeklySweep_def)
  have full: "analyzeWeeklySweep now transactions \<noteq> NoSweep ''Not enough historical data''
      \<and> (\<forall>s. analyzeWeeklySweep now transactions = Sweep s \<longrightarrow>
             sw_avgWeeklySpending s = debitTotal (baselineDebit now) transactions / 4)"
    if "filter (baselineDebit now) transactions \<noteq> []"
    using that len
    by (auto simp: analyzeWeeklySweep_def avgWeeklySpending_total split: if_splits)
  from empty full show ?thesis
    by (simp add: avgWeeklySpending_total)
qed

text \<open>
  C9 on one debit of this week alone, and on the baseline of 420 with an average of 105.
\<close>

theorem analyzeWeeklySweep_baseline_guard_witness:
  "filter (baselineDebit today) [debit 50 (daysAgo 1) ''Food''] = []
   \<and> analyzeWeeklySweep today [debit 50 (daysAgo 1) ''Food'']
       = NoSweep ''Not enough historical data''
   \<and> filter (baselineDebit today) (baselineAndWeek 100) \<noteq> []
   \<and> avgWeeklySpending today (baselineAndWeek 100) = 105"
  using analyzeWeeklySweep_baseline_guard [of today "[debit 50 (daysAgo 1) ''Food'']"]
        analyzeWeeklySweep_baseline_guard [of today "baselineAndWeek 100"]
  by (simp add: baselineAndWeek_def sweep_eval)

section \<open>The soft lock\<close>

lemma find_by_unique_key:
  assumes "distinct (map f xs)" and "a \<in> set xs" and "f a = k"
  shows "find (\<lambda>x. f x = k \<and> Q x) xs = (if Q a then Some a else None)"
  using assms
proof (induction xs)
  case Nil
  then show ?case by simp
next
  case (Cons x xs)
  show ?case
  proof (cases "x = a")
    case True
    with Cons.prems show ?thesis
      by (auto simp: find_None_iff image_iff)
  next
    case False
    with Cons.prems have "f x \<noteq> k"
      by (auto simp: image_iff)
    with Cons False show ?thesis by simp
  qed
qed

lemma selectVault_unique:
  assumes "uniqueAccountIds db" and "a \<in> set (increase_accounts db)"
    and "increase_account_id a = vaultId"
  shows "selectVault db vaultId = (if account_type a = ''vault'' then Some a else None)"
  using assms unfolding selectVault_def uniqueAccountIds_def
  by (rule find_by_unique_key)

lemma selectAccount_unique:
  assumes "uniqueAccountIds db" and "a \<in> set (increase_accounts db)"
    and "increase_account_id a = vaultId"
  shows "selectAccount db vaultId = Some a"
  using find_by_unique_key [of increase_account_id "increase_accounts db" a vaultId "\<lambda>x. True"]
    assms
  by (simp add: selectAccount_def uniqueAccountIds_def)

lemma mostRecent_None_iff: "mostRecent rs = None \<longleftrightarrow> rs = []"
  by (cases rs) (auto split: option.splits)


lemma pendingRequests_empty_iff:
  "pendingRequests db vaultId = [] \<longleftrightarrow>
     (\<forall>r \<in> set (withdrawal_requests db). vault_id r = vaultId \<longrightarrow> status r \<noteq> ''pending'')"
  by (auto simp: pendingRequests_def filter_empty_conv)




lemma createWithdrawalRequest_found:
  assumes "selectAccount db vaultId = Some a"
  shows "createWithdrawalRequest db now vaultId amt why =
     (Created ''24-hour cooling period started'' (impactMessage a amt)
        (now + 24 * 60 * 60 * 1000),
      insertRequest db now vaultId amt why ''pending'' (impactMessage a amt))"
  using assms by (simp add: createWithdrawalRequest_def Let_def)

lemma insertRequest_rows:
  "\<exists>r. withdrawal_requests (insertRequest db now vaultId amt why st impact)
          = withdrawal_requests db @ [r]
       \<and> vault_id r = vaultId \<and> status r = st \<and> wr_amount r = amt
       \<and> created_at r = now - now mod 1000"
  by (simp add: insertRequest_def)

lemma insertRequest_accounts:
  "increase_accounts (insertRequest db now vaultId amt why st impact) = increase_accounts db"
  by (simp add: insertRequest_def)

text \<open>
  C3. For an existing vault with no pending withdrawal request, \<open>checkSoftLock\<close>
  returns the decision that is not allowed, with the reason \<open>new_request\<close> (the
  new-request-required decision) and a snapshot of the name, balance, goal amount and
  purpose of the vault, and it leaves the database as it was: no request is created.
  The request is created by \<open>createWithdrawalRequest\<close>, which appends one pending
  row for the vault.
\<close>

theorem checkSoftLock_new_request_is_read_only:
  assumes "uniqueAccountIds db"
    and "vault \<in> set (increase_accounts db)"
    and "increase_account_id vault = vaultId"
    and "account_type vault = ''vault''"
    and "\<forall>r \<in> set (withdrawal_requests db). vault_id r = vaultId \<longrightarrow> status r \<noteq> ''pending''"
  shows "checkSoftLock db now vaultId amt =
           (NewRequest \<lparr>vs_name = acct_name vault, vs_balance = balance vault,
                        vs_goalAmount = goal_amount vault, vs_purpose = purpose vault\<rparr>, db)
       \<and> \<not> allowed (fst (checkSoftLock db now vaultId amt))
       \<and> reason (fst (checkSoftLock db now vaultId amt)) = Some ''new_request''
       \<and> snd (checkSoftLock db now vaultId amt) = db
       \<and> (\<exists>r. withdrawal_requests (snd (createWithdrawalRequest db now vaultId amt why))
                 = withdrawal_requests db @ [r]
              \<and> vault_id r = vaultId \<and> status r = ''pending'')"
proof -
  have v: "selectVault db vaultId = Some vault"
    using selectVault_unique [OF assms(1-3)] assms(4) by simp
  have a: "selectAccount db vaultId = Some vault"
    using assms(1-3) by (rule selectAccount_unique)
  from assms(5) have "mostRecent (pendingRequests db vaultId) = None"
    by (simp add: mostRecent_None_iff pendingRequests_empty_iff)
  with v have c: "checkSoftLock db now vaultId amt =
           (NewRequest \<lparr>vs_name = acct_name vault, vs_balance = balance vault,
                        vs_goalAmount = goal_amount vault, vs_purpose = purpose vault\<rparr>, db)"
    by (simp add: checkSoftLock_def)
  from insertRequest_rows [of db now vaultId amt why "''pending''" "impactMessage vault amt"]
  have "\<exists>r. withdrawal_requests (snd (createWithdrawalRequest db now vaultId amt why))
                 = withdrawal_requests db @ [r]
              \<and> vault_id r = vaultId \<and> status r = ''pending''"
    by (auto simp: createWithdrawalRequest_found [OF a])
  with c show ?thesis
    by simp
qed

text \<open>
  C3 on the ledger without requests: the check of the vault returns the snapshot and
  the same ledger, and the creation appends the first row.
\<close>

theorem checkSoftLock_new_request_is_read_only_witness:
  "uniqueAccountIds ledger
   \<and> tripVault \<in> set (increase_accounts ledger)
   \<and> increase_account_id tripVault = ''acct_trip''
   \<and> account_type tripVault = ''vault''
   \<and> withdrawal_requests ledger = []
   \<and> checkSoftLock ledger today ''acct_trip'' 120 =
       (NewRequest \<lparr>vs_name = ''Trip'', vs_balance = 500, vs_goalAmount = Some 1000,
                    vs_purpose = Some ''Holiday''\<rparr>, ledger)
   \<and> length (withdrawal_requests ledgerWithRequest) = 1"
proof -
  have h1: "uniqueAccountIds ledger"
    by (simp add: uniqueAccountIds_def ledger_def mainAccount_def tripVault_def)
  have h2: "tripVault \<in> set (increase_accounts ledger)"
    by (simp add: ledger_def)
  have h3: "increase_account_id tripVault = ''acct_trip''"
    and h4: "account_type tripVault = ''vault''"
    by (simp_all add: tripVault_def)
  have h5: "\<forall>r \<in> set (withdrawal_requests ledger).
              vault_id r = ''acct_trip'' \<longrightarrow> status r \<noteq> ''pending''"
    by (simp add: ledger_def)
  note t = checkSoftLock_new_request_is_read_only [OF h1 h2 h3 h4 h5, of today 120 "''rent''"]
  from t have c: "checkSoftLock ledger today ''acct_trip'' 120 =
       (NewRequest \<lparr>vs_name = ''Trip'', vs_balance = 500, vs_goalAmount = Some 1000,
                    vs_purpose = Some ''Holiday''\<rparr>, ledger)"
    by (simp add: tripVault_def)
  from t have l: "length (withdrawal_requests ledgerWithRequest) = 1"
    by (auto simp: ledgerWithRequest_def ledger_def)
  have e: "withdrawal_requests ledger = []"
    by (simp add: ledger_def)
  from h1 h2 h3 h4 e c l show ?thesis
    by blast
qed

text \<open>
  C10. For an account that is present in the ledger with a type other than
  \<open>vault\<close>, \<open>checkSoftLock\<close> reports that the vault was not found and leaves the
  database as it was, while \<open>createWithdrawalRequest\<close> for the same id succeeds and
  appends a pending withdrawal request for it: only the check filters the lookup by
  the account type.
\<close>

theorem non_vault_account_check_fails_create_succeeds:
  assumes "uniqueAccountIds db"
    and "a \<in> set (increase_accounts db)"
    and "increase_account_id a = accountId"
    and "account_type a \<noteq> ''vault''"
  shows "checkSoftLock db now accountId amt = (LockError ''Vault not found'', db)
       \<and> success (fst (createWithdrawalRequest db now accountId amt why))
       \<and> (\<exists>r. withdrawal_requests (snd (createWithdrawalRequest db now accountId amt why))
                 = withdrawal_requests db @ [r]
              \<and> vault_id r = accountId \<and> status r = ''pending'')"
proof -
  have v: "selectVault db accountId = None"
    using selectVault_unique [OF assms(1-3)] assms(4) by simp
  have s: "selectAccount db accountId = Some a"
    using assms(1-3) by (rule selectAccount_unique)
  from insertRequest_rows [of db now accountId amt why "''pending''" "impactMessage a amt"]
  have "\<exists>r. withdrawal_requests (snd (createWithdrawalRequest db now accountId amt why))
                 = withdrawal_requests db @ [r]
              \<and> vault_id r = accountId \<and> status r = ''pending''"
    by (auto simp: createWithdrawalRequest_found [OF s])
  with v s show ?thesis
    by (simp add: checkSoftLock_def createWithdrawalRequest_found)
qed

text \<open>
  C10 on the main account of the ledger: the check fails, the creation succeeds and
  the main account then has a pending request.
\<close>

theorem non_vault_account_check_fails_create_succeeds_witness:
  "uniqueAccountIds ledger
   \<and> mainAccount \<in> set (increase_accounts ledger)
   \<and> increase_account_id mainAccount = ''acct_main''
   \<and> account_type mainAccount \<noteq> ''vault''
   \<and> fst (checkSoftLock ledger today ''acct_main'' 40) = LockError ''Vault not found''
   \<and> success (fst (createWithdrawalRequest ledger today ''acct_main'' 40 ''cash''))
   \<and> length (pendingRequests (snd (createWithdrawalRequest ledger today ''acct_main'' 40
        ''cash'')) ''acct_main'') = 1"
proof -
  have h1: "uniqueAccountIds ledger"
    by (simp add: uniqueAccountIds_def ledger_def mainAccount_def tripVault_def)
  have h2: "mainAccount \<in> set (increase_accounts ledger)"
    by (simp add: ledger_def)
  have h3: "increase_account_id mainAccount = ''acct_main''"
    and h4: "account_type mainAccount \<noteq> ''vault''"
    by (simp_all add: mainAccount_def)
  note t = non_vault_account_check_fails_create_succeeds
             [OF h1 h2 h3 h4, of today 40 "''cash''"]
  from t have p: "length (pendingRequests (snd (createWithdrawalRequest ledger today
        ''acct_main'' 40 ''cash'')) ''acct_main'') = 1"
    by (auto simp: pendingRequests_def ledger_def)
  from t h1 h2 h3 h4 p show ?thesis
    by simp
qed

section \<open>At most one pending request per vault\<close>

lemma singlePending_insert:
  assumes "singlePending db" and "pendingRequests db vaultId = []"
  shows "singlePending (insertRequest db now vaultId amt why ''pending'' impact)"
proof -
  from assms(2) have "vaultId \<notin> vault_id ` {r \<in> set (withdrawal_requests db). status r = ''pending''}"
    by (auto simp: pendingRequests_empty_iff)
  with assms(1) show ?thesis
    by (simp add: singlePending_def insertRequest_def)
qed

lemma distinct_map_filter_conj:
  "distinct (map f (filter P xs)) \<Longrightarrow> distinct (map f (filter (\<lambda>x. P x \<and> Q x) xs))"
  by (induction xs) (auto split: if_splits)

lemma pending_after_complete:
  "map vault_id (filter (\<lambda>r. status r = ''pending'')
      (map (\<lambda>r. if wr_id r = i then r\<lparr>status := ''completed'', completed_at := c\<rparr> else r) rows))
   = map vault_id (filter (\<lambda>r. status r = ''pending'' \<and> wr_id r \<noteq> i) rows)"
  by (induction rows) auto

lemma singlePending_complete:
  assumes "singlePending db"
  shows "singlePending (completeRequest db now i)"
  using assms
  by (simp add: singlePending_def completeRequest_def pending_after_complete
        distinct_map_filter_conj)

lemma checkSoftLock_reads: "snd (checkSoftLock db now vaultId amt) = db"
  by (simp add: checkSoftLock_def Let_def split: option.splits)

lemma checkSoftLock_new_request:
  assumes "reason (fst (checkSoftLock db now vaultId amt)) = Some ''new_request''"
  shows "pendingRequests db vaultId = []"
  using assms
  by (auto simp: checkSoftLock_def Let_def mostRecent_None_iff split: option.splits if_splits)

lemma createWithdrawalRequest_writes:
  "snd (createWithdrawalRequest db now vaultId amt why) = db
   \<or> (\<exists>impact. snd (createWithdrawalRequest db now vaultId amt why)
         = insertRequest db now vaultId amt why ''pending'' impact)"
  by (auto simp: createWithdrawalRequest_def Let_def split: option.splits)

lemma withdrawRequestRoute_singlePending:
  assumes "singlePending db"
  shows "singlePending (snd (withdrawRequestRoute db now vaultId amt why))"
proof -
  obtain lockCheck db1 where c: "checkSoftLock db now vaultId amt = (lockCheck, db1)"
    by (cases "checkSoftLock db now vaultId amt")
  with checkSoftLock_reads [of db now vaultId amt] have db1: "db1 = db"
    by simp
  show ?thesis
  proof (cases "vaultId \<noteq> [] \<and> amt \<noteq> 0 \<and> \<not> allowed lockCheck
                \<and> reason lockCheck \<noteq> Some ''cooling_period''
                \<and> reason lockCheck = Some ''new_request''")
    case False
    with c db1 assms show ?thesis
      by (auto simp: withdrawRequestRoute_def)
  next
    case True
    let ?w = "case why of None \<Rightarrow> [] | Some w \<Rightarrow> w"
    from True c have "pendingRequests db vaultId = []"
      using checkSoftLock_new_request [of db now vaultId amt] by simp
    with assms createWithdrawalRequest_writes [of db now vaultId amt ?w]
    have "singlePending (snd (createWithdrawalRequest db now vaultId amt ?w))"
      by (auto simp: singlePending_insert)
    with True c db1 show ?thesis
      by (cases "createWithdrawalRequest db now vaultId amt ?w")
         (simp add: withdrawRequestRoute_def)
  qed
qed

lemma applyWrite_singlePending: "singlePending db \<Longrightarrow> singlePending (applyWrite db w)"
  by (cases w) (simp_all add: withdrawRequestRoute_singlePending singlePending_complete)

text \<open>
  C1 as stated fails: \<open>createWithdrawalRequest\<close> neither rejects nor prevents a
  second pending request. Called twice for the vault of the ledger it succeeds twice,
  and the store then holds two pending requests for that vault.
\<close>

theorem createWithdrawalRequest_twice_two_pending:
  "singlePending ledger
   \<and> success (fst (createWithdrawalRequest ledger today ''acct_trip'' 120 ''rent''))
   \<and> success (fst (createWithdrawalRequest ledgerWithRequest (today + 60000) ''acct_trip'' 50
        ''gift''))
   \<and> length (pendingRequests (snd (createWithdrawalRequest ledgerWithRequest (today + 60000)
        ''acct_trip'' 50 ''gift'')) ''acct_trip'') = 2
   \<and> \<not> singlePending (snd (createWithdrawalRequest ledgerWithRequest (today + 60000)
        ''acct_trip'' 50 ''gift''))"
  by (simp add: ledgerWithRequest_def ledger_def createWithdrawalRequest_def
        selectAccount_def mainAccount_def tripVault_def insertRequest_def Let_def
        pendingRequests_def singlePending_def)

text \<open>
  C1 as amended. The writes that the routes of the server make to the store, a
  withdrawal request through the request route (which calls
  \<open>createWithdrawalRequest\<close> only after \<open>checkSoftLock\<close> found no pending request
  of the vault) and the completion of a request, keep the invariant: from a store
  with at most one pending request per vault, every sequence of such writes leads to a
  store with at most one pending request per vault.
\<close>

theorem route_writes_keep_single_pending:
  assumes "singlePending db"
  shows "singlePending (applyWrites db ws)"
  using assms unfolding applyWrites_def
  by (induction ws arbitrary: db) (simp_all add: applyWrite_singlePending)

text \<open>
  Two requests for the vault of the ledger through the route, one minute apart: the
  second one is answered with the cooling period and the store keeps one pending row.
\<close>

theorem route_writes_keep_single_pending_witness:
  "singlePending ledger
   \<and> singlePending (applyWrites ledger
        [RequestWithdrawal today ''acct_trip'' 120 (Some ''rent''),
         RequestWithdrawal (today + 60000) ''acct_trip'' 50 (Some ''gift'')])
   \<and> length (pendingRequests (applyWrites ledger
        [RequestWithdrawal today ''acct_trip'' 120 (Some ''rent''),
         RequestWithdrawal (today + 60000) ''acct_trip'' 50 (Some ''gift'')]) ''acct_trip'') = 1"
proof -
  have h: "singlePending ledger"
    by (simp add: singlePending_def ledger_def)
  have first: "snd (withdrawRequestRoute ledger today ''acct_trip'' 120 (Some ''rent''))
                 = ledgerWithRequest"
    by (simp add: withdrawRequestRoute_def checkSoftLock_def selectVault_def
          pendingRequests_def ledger_def mainAccount_def tripVault_def
          ledgerWithRequest_def split: prod.splits)
  have rows: "withdrawal_requests ledgerWithRequest =
      [\<lparr>wr_id = 1, vault_id = ''acct_trip'', wr_amount = 120, wr_reason = ''rent'',
        status = ''pending'', impact_message = impactMessage tripVault 120,
        created_at = today, completed_at = None\<rparr>]"
    by (simp add: ledgerWithRequest_def ledger_def createWithdrawalRequest_def
          selectAccount_def mainAccount_def tripVault_def insertRequest_def nextId_def
          today_def Let_def)
  have accts: "increase_accounts ledgerWithRequest = [mainAccount, tripVault]"
    by (simp add: ledgerWithRequest_def ledger_def createWithdrawalRequest_def
          selectAccount_def mainAccount_def tripVault_def insertRequest_def Let_def)
  have second: "snd (withdrawRequestRoute ledgerWithRequest (today + 60000) ''acct_trip'' 50
                  (Some ''gift'')) = ledgerWithRequest"
    by (simp add: withdrawRequestRoute_def checkSoftLock_def selectVault_def
          pendingRequests_def rows accts mainAccount_def tripVault_def
          hoursSinceRequest_def Let_def split: prod.splits)
  have run: "applyWrites ledger
        [RequestWithdrawal today ''acct_trip'' 120 (Some ''rent''),
         RequestWithdrawal (today + 60000) ''acct_trip'' 50 (Some ''gift'')]
      = ledgerWithRequest"
    by (simp add: applyWrites_def first second)
  have one: "length (pendingRequests ledgerWithRequest ''acct_trip'') = 1"
    by (simp add: pendingRequests_def rows)
  from route_writes_keep_single_pending [OF h, of
        "[RequestWithdrawal today ''acct_trip'' 120 (Some ''rent''),
          RequestWithdrawal (today + 60000) ''acct_trip'' 50 (Some ''gift'')]"]
    h run one
  show ?thesis
    by simp
qed

end
